theory Spec2Isabelle
  imports Main
begin

section \<open>Data model\<close>

text \<open>
  The webhook service of \<^verbatim>\<open>src/router/routerv2.go\<close> (package \<^verbatim>\<open>webhook\<close>).
  Strings are byte strings. Errors are values.
\<close>

datatype error =
    ValidationError string  \<comment> \<open>\<^verbatim>\<open>&tsuruErrors.ValidationError{Message: ...}\<close>\<close>
  | Errorf string           \<comment> \<open>\<^verbatim>\<open>errors.Errorf(...)\<close>, carrying the formatted message\<close>
  | External string         \<comment> \<open>an error handed back by a collaborator\<close>

fun Error_message :: "error \<Rightarrow> string" where
  "Error_message (ValidationError m) = m"
| "Error_message (Errorf m) = m"
| "Error_message (External m) = m"

fun is_ValidationError :: "error \<Rightarrow> bool" where
  "is_ValidationError (ValidationError m) = True"
| "is_ValidationError (Errorf m) = False"
| "is_ValidationError (External m) = False"

text \<open>
  Modelled from the spec: the declarations of \<^verbatim>\<open>event.Event\<close>, \<^verbatim>\<open>event.Target\<close>,
  \<^verbatim>\<open>event.ExtraTarget\<close>, \<^verbatim>\<open>event.Kind\<close>, \<^verbatim>\<open>eventTypes.WebHook\<close> and
  \<^verbatim>\<open>eventTypes.WebHookEventFilter\<close> are not part of the source file. The records hold the
  fields the source file reads and writes; the spec's data model describes \<^verbatim>\<open>Headers\<close>
  as a multi-map of header name to values, so the header map is an allocated map.
\<close>

record Target =
  Target_Type :: string
  Target_Value :: string

record ExtraTarget =
  ExtraTarget_Target :: Target

record Kind =
  Kind_Type :: string
  Kind_Name :: string

record Event =
  Event_Target :: Target
  Event_ExtraTargets :: "ExtraTarget list"
  Event_Kind :: Kind
  Event_Error :: string

record WebHookEventFilter =
  TargetTypes :: "string list"
  TargetValues :: "string list"
  KindTypes :: "string list"
  KindNames :: "string list"

type_synonym Header = "string \<rightharpoonup> string list"

record WebHook =
  Name :: string
  URL :: string
  Headers :: Header
  Method :: string
  Body :: string
  Insecure :: bool

record Request =
  Request_Method :: string
  Request_URL :: string
  Request_Body :: "string option"  \<comment> \<open>\<open>None\<close> is the nil reader\<close>
  Request_Header :: Header

record Response =
  StatusCode :: int
  Response_Body :: string  \<comment> \<open>what \<^verbatim>\<open>ioutil.ReadAll\<close> yields, its read error dropped\<close>

datatype storage_call =
    Call_FindByEvent WebHookEventFilter bool
  | Call_Insert WebHook

text \<open>
  The observable state: the three metrics the delivery engine writes, the requests handed
  to the HTTP client (with the flag selecting the insecure client), the calls made on the
  store, and the lines logged for failed hooks (hook name and cause).
\<close>

record world =
  webhooksTotal :: nat
  webhooksError :: nat
  webhooksLatency :: "nat list"
  requests :: "(bool \<times> Request) list"
  storage_calls :: "storage_call list"
  logged :: "(string \<times> error) list"

text \<open>
  The collaborators the source file calls and does not define, taken as parameters. The
  HTTP client and the store answer depending on what they were asked before.
\<close>

record env =
  GetByID :: "string \<Rightarrow> error + Event"
  FindByEvent :: "storage_call list \<Rightarrow> WebHookEventFilter \<Rightarrow> bool \<Rightarrow> error + WebHook list"
  Insert :: "storage_call list \<Rightarrow> WebHook \<Rightarrow> error option"
  Marshal :: "Event \<Rightarrow> error + string"
  NewRequest_check :: "string \<Rightarrow> string \<Rightarrow> error option"
  Do :: "(bool \<times> Request) list \<Rightarrow> bool \<Rightarrow> Request \<Rightarrow> (error + Response) \<times> nat"
  validateName :: "string \<Rightarrow> bool"
  url_Parse :: "string \<Rightarrow> string option"

section \<open>Library functions\<close>

definition defaultUserAgent :: string where
  "defaultUserAgent = ''tsuru-webhook-client/1.0''"

text \<open>
  \<^verbatim>\<open>http.Header.Set\<close> and \<^verbatim>\<open>http.Header.Get\<close>. Both canonicalise the key first; the
  two keys the source file uses, \<^verbatim>\<open>Content-Type\<close> and \<^verbatim>\<open>User-Agent\<close>, are canonical.
\<close>

definition Header_Set :: "string \<Rightarrow> string \<Rightarrow> Header \<Rightarrow> Header" where
  "Header_Set k v h = h(k \<mapsto> [v])"

definition Header_Get :: "Header \<Rightarrow> string \<Rightarrow> string" where
  "Header_Get h k = (case h k of None \<Rightarrow> [] | Some [] \<Rightarrow> [] | Some (v # _) \<Rightarrow> v)"

definition UserAgent :: "Request \<Rightarrow> string" where
  "UserAgent r = Header_Get (Request_Header r) ''User-Agent''"

text \<open>
  \<^verbatim>\<open>strings.ToUpper\<close> on bytes: the letters a to z are mapped to A to Z, as the library
  does for a string of ASCII bytes; other bytes are kept.
\<close>

definition toUpperByte :: "char \<Rightarrow> char" where
  "toUpperByte c =
     (case map_of (zip ''abcdefghijklmnopqrstuvwxyz'' ''ABCDEFGHIJKLMNOPQRSTUVWXYZ'') c of
        Some u \<Rightarrow> u
      | None \<Rightarrow> c)"

definition ToUpper :: "string \<Rightarrow> string" where
  "ToUpper s = map toUpperByte s"

text \<open>The verb \<^verbatim>\<open>%d\<close> of \<^verbatim>\<open>fmt\<close>: a decimal numeral, with a minus sign below zero.\<close>

fun digits :: "nat \<Rightarrow> string" where
  "digits n =
     (if n < 10 then [''0123456789'' ! n] else digits (n div 10) @ [''0123456789'' ! (n mod 10)])"

declare digits.simps [simp del]

definition itoa :: "int \<Rightarrow> string" where
  "itoa i = (if i < 0 then CHR ''-'' # digits (nat (- i)) else digits (nat i))"

text \<open>
  \<^verbatim>\<open>http.NewRequest\<close>: the library rejects a bad method or URL (the parameter
  \<open>NewRequest_check\<close>); otherwise the request carries the method, the URL and the body,
  and an empty header map.
\<close>

definition NewRequest :: "env \<Rightarrow> string \<Rightarrow> string \<Rightarrow> string option \<Rightarrow> error + Request" where
  "NewRequest env method url body =
     (case NewRequest_check env method url of
        Some e \<Rightarrow> Inl e
      | None \<Rightarrow> Inr \<lparr>Request_Method = method, Request_URL = url,
                      Request_Body = body, Request_Header = Map.empty\<rparr>)"

text \<open>
  Modelled from the spec: \<^verbatim>\<open>validation.EnsureValidateName\<close> is not part of the source
  file. The spec has a name failing the platform's name-syntax rule rejected with a
  validation error; the rule itself is the parameter \<open>validateName\<close>.
\<close>

definition EnsureValidateName :: "env \<Rightarrow> string \<Rightarrow> error option" where
  "EnsureValidateName env name =
     (if validateName env name then None else Some (ValidationError ''invalid name''))"

section \<open>The event filter and the delivery engine\<close>

text \<open>The loop of lines 159 to 162: one append to each list per extra target.\<close>

fun appendExtraTargets :: "ExtraTarget list \<Rightarrow> WebHookEventFilter \<Rightarrow> WebHookEventFilter" where
  "appendExtraTargets [] flt = flt"
| "appendExtraTargets (t # ts) flt =
     appendExtraTargets ts
       (flt\<lparr>TargetTypes := TargetTypes flt @ [Target_Type (ExtraTarget_Target t)],
            TargetValues := TargetValues flt @ [Target_Value (ExtraTarget_Target t)]\<rparr>)"

text \<open>
  \<open>webhookBody\<close> returns the reader (\<open>Inr None\<close> is the nil reader) or the error, and the
  hook it was given a pointer to, whose header map it may have written.
\<close>

definition webhookBody :: "env \<Rightarrow> WebHook \<Rightarrow> Event \<Rightarrow> (error + string option) \<times> WebHook" where
  "webhookBody env hook evt =
     (if Body hook \<noteq> '''' then (Inr (Some (Body hook)), hook)
      else if Method hook \<noteq> ''POST'' \<and> Method hook \<noteq> ''PUT'' \<and> Method hook \<noteq> ''PATCH''
      then (Inr None, hook)
      else
        (let hook' = hook\<lparr>Headers := Header_Set ''Content-Type'' ''application/json'' (Headers hook)\<rparr>
         in case Marshal env evt of
              Inl e \<Rightarrow> (Inl e, hook')
            | Inr data \<Rightarrow> (Inr (Some data), hook')))"

text \<open>The deferred closure of \<open>doHook\<close>, run with the error the function returns.\<close>

definition deferred :: "error option \<Rightarrow> world \<Rightarrow> world" where
  "deferred err s =
     (let s1 = s\<lparr>webhooksTotal := webhooksTotal s + 1\<rparr>
      in if err \<noteq> None then s1\<lparr>webhooksError := webhooksError s1 + 1\<rparr> else s1)"

definition doHook :: "env \<Rightarrow> WebHook \<Rightarrow> Event \<Rightarrow> world \<Rightarrow> error option \<times> world" where
  "doHook env hook0 evt s =
     (let hook1 = hook0\<lparr>Method := ToUpper (Method hook0)\<rparr>;
          hook2 = (if Method hook1 = '''' then hook1\<lparr>Method := ''POST''\<rparr> else hook1);
          r =
            (case webhookBody env hook2 evt of
               (Inl e, hook) \<Rightarrow> (Some e, s)
             | (Inr body, hook) \<Rightarrow>
                 (case NewRequest env (Method hook) (URL hook) body of
                    Inl e \<Rightarrow> (Some e, s)
                  | Inr req0 \<Rightarrow>
                      (let req1 = req0\<lparr>Request_Header := Headers hook\<rparr>;
                           req = (if UserAgent req1 = ''''
                                  then req1\<lparr>Request_Header :=
                                         Header_Set ''User-Agent'' defaultUserAgent (Request_Header req1)\<rparr>
                                  else req1);
                           answer = Do env (requests s) (Insecure hook) req;
                           s1 = s\<lparr>webhooksLatency := webhooksLatency s @ [snd answer],
                                  requests := requests s @ [(Insecure hook, req)]\<rparr>
                       in case fst answer of
                            Inl e \<Rightarrow> (Some e, s1)
                          | Inr rsp \<Rightarrow>
                              if StatusCode rsp < 200 \<or> StatusCode rsp \<ge> 400
                              then (Some (Errorf (''invalid status code calling hook: '' @
                                       itoa (StatusCode rsp) @ '': '' @ Response_Body rsp)), s1)
                              else (None, s1))))
      in (fst r, deferred (fst r) (snd r)))"

text \<open>The loop of lines 167 to 172: every hook in turn, a failure logged and passed over.\<close>

fun hooksLoop :: "env \<Rightarrow> WebHook list \<Rightarrow> Event \<Rightarrow> world \<Rightarrow> world" where
  "hooksLoop env [] evt s = s"
| "hooksLoop env (h # hs) evt s =
     (case doHook env h evt s of
        (None, s') \<Rightarrow> hooksLoop env hs evt s'
      | (Some e, s') \<Rightarrow> hooksLoop env hs evt (s'\<lparr>logged := logged s' @ [(Name h, e)]\<rparr>))"

definition handleEvent :: "env \<Rightarrow> string \<Rightarrow> world \<Rightarrow> error option \<times> world" where
  "handleEvent env evtID s =
     (case GetByID env evtID of
        Inl e \<Rightarrow> (Some e, s)
      | Inr evt \<Rightarrow>
          (let flt = appendExtraTargets (Event_ExtraTargets evt)
                 \<lparr>TargetTypes = [Target_Type (Event_Target evt)],
                  TargetValues = [Target_Value (Event_Target evt)],
                  KindTypes = [Kind_Type (Event_Kind evt)],
                  KindNames = [Kind_Name (Event_Kind evt)]\<rparr>;
               s1 = s\<lparr>storage_calls := storage_calls s @ [Call_FindByEvent flt (Event_Error evt = '''')]\<rparr>
           in case FindByEvent env (storage_calls s) flt (Event_Error evt = '''') of
                Inl e \<Rightarrow> (Some e, s1)
              | Inr hooks \<Rightarrow> (None, hooksLoop env hooks evt s1)))"

section \<open>The management facade\<close>

definition validateURL :: "env \<Rightarrow> string \<Rightarrow> error option" where
  "validateURL env u =
     (if u = '''' then Some (ValidationError ''webhook url must not be empty'')
      else case url_Parse env u of
             Some msg \<Rightarrow> Some (ValidationError (''webhook url is not valid: '' @ msg))
           | None \<Rightarrow> None)"

definition Create :: "env \<Rightarrow> WebHook \<Rightarrow> world \<Rightarrow> error option \<times> world" where
  "Create env w s =
     (if Name w = '''' then (Some (ValidationError ''webhook name must not be empty''), s)
      else case EnsureValidateName env (Name w) of
             Some e \<Rightarrow> (Some e, s)
           | None \<Rightarrow>
               (case validateURL env (URL w) of
                  Some e \<Rightarrow> (Some e, s)
                | None \<Rightarrow> (Insert env (storage_calls s) w,
                            s\<lparr>storage_calls := storage_calls s @ [Call_Insert w]\<rparr>)))"

section \<open>A concrete environment\<close>

text \<open>
  The method check of \<^verbatim>\<open>http.NewRequest\<close>: a method is a non-empty string of token
  bytes (letters, digits and the punctuation of an HTTP token).
\<close>

definition isTokenByte :: "char \<Rightarrow> bool" where
  "isTokenByte c =
     (let n = (of_char c :: nat)
      in (48 \<le> n \<and> n \<le> 57) \<or> (65 \<le> n \<and> n \<le> 90) \<or> (97 \<le> n \<and> n \<le> 122) \<or>
         n \<in> {33, 35, 36, 37, 38, 39, 42, 43, 45, 46, 94, 95, 96, 124, 126})"

definition validMethod :: "string \<Rightarrow> bool" where
  "validMethod m = (m \<noteq> [] \<and> list_all isTokenByte m)"

definition evt0 :: Event where
  "evt0 = \<lparr>Event_Target = \<lparr>Target_Type = ''app'', Target_Value = ''myapp''\<rparr>,
           Event_ExtraTargets =
             [\<lparr>ExtraTarget_Target = \<lparr>Target_Type = ''pool'', Target_Value = ''p1''\<rparr>\<rparr>,
              \<lparr>ExtraTarget_Target = \<lparr>Target_Type = ''team'', Target_Value = ''t1''\<rparr>\<rparr>],
           Event_Kind = \<lparr>Kind_Type = ''permission'', Kind_Name = ''app.deploy''\<rparr>,
           Event_Error = ''''\<rparr>"

definition evt1 :: Event where
  "evt1 = \<lparr>Event_Target = \<lparr>Target_Type = ''app'', Target_Value = ''myapp''\<rparr>,
           Event_ExtraTargets = [],
           Event_Kind = \<lparr>Kind_Type = ''permission'', Kind_Name = ''app.deploy''\<rparr>,
           Event_Error = ''build failed''\<rparr>"

definition hookA :: WebHook where
  "hookA = \<lparr>Name = ''a'', URL = ''http://a.example/fail'', Headers = Map.empty,
            Method = ''post'', Body = '''', Insecure = False\<rparr>"

definition hookB :: WebHook where
  "hookB = \<lparr>Name = ''b'', URL = ''http://b.example/ok'', Headers = Map.empty,
            Method = ''GET'', Body = ''ping'', Insecure = True\<rparr>"

text \<open>
  Two events are known; the store matches \<open>hookA\<close> and \<open>hookB\<close>, in this order; the
  server behind the first URL answers 503, every other one 200; names and URLs with a
  space are rejected.
\<close>

definition env0 :: env where
  "env0 = \<lparr>GetByID = (\<lambda>i. if i = ''e0'' then Inr evt0 else if i = ''e1'' then Inr evt1
                            else Inl (External ''event not found'')),
           FindByEvent = (\<lambda>cs f b. Inr [hookA, hookB]),
           Insert = (\<lambda>cs w. None),
           Marshal = (\<lambda>e. Inr ''{}''),
           NewRequest_check = (\<lambda>m u. if validMethod m then None
                                      else Some (External ''net/http: invalid method'')),
           Do = (\<lambda>rs i r. (Inr \<lparr>StatusCode = (if Request_URL r = ''http://a.example/fail''
                                                 then 503 else 200),
                                 Response_Body = ''busy''\<rparr>, 7)),
           validateName = (\<lambda>n. list_all (\<lambda>c. c \<noteq> CHR '' '') n),
           url_Parse = (\<lambda>u. if list_all (\<lambda>c. c \<noteq> CHR '' '') u then None
                              else Some ''invalid character in URL'')\<rparr>"

definition world0 :: world where
  "world0 = \<lparr>webhooksTotal = 0, webhooksError = 0, webhooksLatency = [], requests = [],
             storage_calls = [], logged = []\<rparr>"

section \<open>The blocks of \<open>doHook\<close>, named\<close>

text \<open>
  Three blocks of \<open>doHook\<close> as functions of their own, for stating what it does: the
  method after lines 200 to 203, the header map after lines 212 to 215, and the error
  returned from lines 223 to 231 for what the client answered. That \<open>doHook\<close> is built
  from them is proved below, from its definition.
\<close>

definition normalizeMethod :: "WebHook \<Rightarrow> WebHook" where
  "normalizeMethod hook =
     hook\<lparr>Method := (if ToUpper (Method hook) = '''' then ''POST'' else ToUpper (Method hook))\<rparr>"

definition addUserAgent :: "Header \<Rightarrow> Header" where
  "addUserAgent h =
     (if Header_Get h ''User-Agent'' = '''' then Header_Set ''User-Agent'' defaultUserAgent h else h)"

definition classify :: "error + Response \<Rightarrow> error option" where
  "classify a =
     (case a of
        Inl e \<Rightarrow> Some e
      | Inr rsp \<Rightarrow>
          if StatusCode rsp < 200 \<or> StatusCode rsp \<ge> 400
          then Some (Errorf (''invalid status code calling hook: '' @
                       itoa (StatusCode rsp) @ '': '' @ Response_Body rsp))
          else None)"

section \<open>More hooks, and the requests sent for them\<close>

definition hookC :: WebHook where
  "hookC = \<lparr>Name = ''c'', URL = ''http://c.example/'', Headers = Map.empty,
            Method = ''g t'', Body = '''', Insecure = False\<rparr>"

definition hookD :: WebHook where
  "hookD = \<lparr>Name = ''d'', URL = ''http://d.example/'',
            Headers = [''User-Agent'' \<mapsto> [''custom/2.0'']],
            Method = ''put'', Body = ''literal'', Insecure = False\<rparr>"

definition reqA :: Request where
  "reqA = \<lparr>Request_Method = ''POST'', Request_URL = ''http://a.example/fail'',
           Request_Body = Some ''{}'',
           Request_Header = [''Content-Type'' \<mapsto> [''application/json''],
                             ''User-Agent'' \<mapsto> [''tsuru-webhook-client/1.0'']]\<rparr>"

definition reqB :: Request where
  "reqB = \<lparr>Request_Method = ''GET'', Request_URL = ''http://b.example/ok'',
           Request_Body = Some ''ping'',
           Request_Header = [''User-Agent'' \<mapsto> [''tsuru-webhook-client/1.0'']]\<rparr>"

definition reqD :: Request where
  "reqD = \<lparr>Request_Method = ''PUT'', Request_URL = ''http://d.example/'',
           Request_Body = Some ''literal'',
           Request_Header = [''User-Agent'' \<mapsto> [''custom/2.0'']]\<rparr>"

section \<open>What each function leaves alone\<close>

lemma appendExtraTargets_eq:
  "appendExtraTargets ts flt =
     flt\<lparr>TargetTypes := TargetTypes flt @ map (\<lambda>t. Target_Type (ExtraTarget_Target t)) ts,
          TargetValues := TargetValues flt @ map (\<lambda>t. Target_Value (ExtraTarget_Target t)) ts\<rparr>"
  by (induction ts arbitrary: flt) simp_all

lemma deferred_frame:
  "storage_calls (deferred err s) = storage_calls s"
  "requests (deferred err s) = requests s"
  "webhooksLatency (deferred err s) = webhooksLatency s"
  "logged (deferred err s) = logged s"
  "webhooksTotal (deferred err s) = webhooksTotal s + 1"
  "webhooksError (deferred err s) = webhooksError s + (if err = None then 0 else 1)"
  by (simp_all add: deferred_def Let_def)

lemma doHook_storage_calls: "storage_calls (snd (doHook env h evt s)) = storage_calls s"
  by (simp add: doHook_def Let_def deferred_frame split: prod.splits sum.splits)

lemma hooksLoop_storage_calls: "storage_calls (hooksLoop env hs evt s) = storage_calls s"
proof (induction hs arbitrary: s)
  case Nil
  show ?case by simp
next
  case (Cons h hs)
  obtain err s' where d: "doHook env h evt s = (err, s')"
    by (cases "doHook env h evt s")
  have "storage_calls s' = storage_calls s"
    using doHook_storage_calls [of env h evt s] d by simp
  then show ?case using Cons.IH d by (cases err) simp_all
qed

lemma handleEvent_storage_calls:
  assumes "GetByID env evtID = Inr evt"
  shows "storage_calls (snd (handleEvent env evtID s)) =
           storage_calls s @ [Call_FindByEvent
             \<lparr>TargetTypes = Target_Type (Event_Target evt) #
                  map (\<lambda>t. Target_Type (ExtraTarget_Target t)) (Event_ExtraTargets evt),
              TargetValues = Target_Value (Event_Target evt) #
                  map (\<lambda>t. Target_Value (ExtraTarget_Target t)) (Event_ExtraTargets evt),
              KindTypes = [Kind_Type (Event_Kind evt)],
              KindNames = [Kind_Name (Event_Kind evt)]\<rparr>
             (Event_Error evt = '''')]"
  using assms
  by (simp add: handleEvent_def Let_def appendExtraTargets_eq hooksLoop_storage_calls
      split: sum.splits)

section \<open>The event filter\<close>

text \<open>
  C1. For an event with k extra targets, the filter \<open>handleEvent\<close> hands to the store has
  k+1 entries in \<open>TargetTypes\<close> and in \<open>TargetValues\<close>: the primary target's type and
  value first, then the type and value of each extra target, in order; \<open>KindTypes\<close> and
  \<open>KindNames\<close> hold one entry each, the event's kind type and kind name.
\<close>

theorem handleEvent_filter_entries:
  assumes "GetByID env evtID = Inr evt"
  shows "\<exists>flt b.
           storage_calls (snd (handleEvent env evtID s)) = storage_calls s @ [Call_FindByEvent flt b] \<and>
           length (TargetTypes flt) = length (Event_ExtraTargets evt) + 1 \<and>
           length (TargetValues flt) = length (Event_ExtraTargets evt) + 1 \<and>
           TargetTypes flt = Target_Type (Event_Target evt) #
             map (\<lambda>t. Target_Type (ExtraTarget_Target t)) (Event_ExtraTargets evt) \<and>
           TargetValues flt = Target_Value (Event_Target evt) #
             map (\<lambda>t. Target_Value (ExtraTarget_Target t)) (Event_ExtraTargets evt) \<and>
           KindTypes flt = [Kind_Type (Event_Kind evt)] \<and>
           KindNames flt = [Kind_Name (Event_Kind evt)]"
  using handleEvent_storage_calls [OF assms, of s] by simp

theorem handleEvent_filter_entries_witness:
  "GetByID env0 ''e0'' = Inr evt0 \<and>
   (\<exists>flt b.
      storage_calls (snd (handleEvent env0 ''e0'' world0)) = [Call_FindByEvent flt b] \<and>
      length (TargetTypes flt) = 3 \<and> length (TargetValues flt) = 3 \<and>
      TargetTypes flt = [''app'', ''pool'', ''team''] \<and>
      TargetValues flt = [''myapp'', ''p1'', ''t1''] \<and>
      KindTypes flt = [''permission''] \<and> KindNames flt = [''app.deploy''])"
proof -
  have h: "GetByID env0 ''e0'' = Inr evt0"
    by (simp add: env0_def)
  show ?thesis
    using h handleEvent_filter_entries [OF h, of world0]
    by (auto simp: evt0_def world0_def)
qed

text \<open>
  C6. The \<open>successOnly\<close> argument \<open>handleEvent\<close> passes to the store's \<open>FindByEvent\<close> is
  true exactly when the event's \<open>Error\<close> field is the empty string.
\<close>

theorem handleEvent_successOnly:
  assumes "GetByID env evtID = Inr evt"
  shows "\<exists>flt. storage_calls (snd (handleEvent env evtID s)) =
           storage_calls s @ [Call_FindByEvent flt (Event_Error evt = '''')]"
  using handleEvent_storage_calls [OF assms, of s] by simp

theorem handleEvent_successOnly_witness:
  "GetByID env0 ''e1'' = Inr evt1 \<and>
   (\<exists>flt. storage_calls (snd (handleEvent env0 ''e1'' world0)) = [Call_FindByEvent flt False])"
proof -
  have h: "GetByID env0 ''e1'' = Inr evt1"
    by (simp add: env0_def)
  show ?thesis
    using h handleEvent_successOnly [OF h, of world0]
    by (simp add: evt1_def world0_def)
qed

section \<open>The paths through \<open>doHook\<close>\<close>

lemma webhookBody_Headers:
  "Headers (snd (webhookBody env hook evt)) =
     (if Body hook = '''' \<and> Method hook \<in> {''POST'', ''PUT'', ''PATCH''}
      then Header_Set ''Content-Type'' ''application/json'' (Headers hook)
      else Headers hook)"
  by (simp add: webhookBody_def Let_def split: sum.splits)

lemma webhookBody_frame:
  "Method (snd (webhookBody env hook evt)) = Method hook"
  "URL (snd (webhookBody env hook evt)) = URL hook"
  "Insecure (snd (webhookBody env hook evt)) = Insecure hook"
  "Body (snd (webhookBody env hook evt)) = Body hook"
  "Name (snd (webhookBody env hook evt)) = Name hook"
  by (simp_all add: webhookBody_def Let_def split: sum.splits)

lemma doHook_start:
  "doHook env hook evt s =
     (let r =
            (case webhookBody env (normalizeMethod hook) evt of
               (Inl e, hook) \<Rightarrow> (Some e, s)
             | (Inr body, hook) \<Rightarrow>
                 (case NewRequest env (Method hook) (URL hook) body of
                    Inl e \<Rightarrow> (Some e, s)
                  | Inr req0 \<Rightarrow>
                      (let req1 = req0\<lparr>Request_Header := Headers hook\<rparr>;
                           req = (if UserAgent req1 = ''''
                                  then req1\<lparr>Request_Header :=
                                         Header_Set ''User-Agent'' defaultUserAgent (Request_Header req1)\<rparr>
                                  else req1);
                           answer = Do env (requests s) (Insecure hook) req;
                           s1 = s\<lparr>webhooksLatency := webhooksLatency s @ [snd answer],
                                  requests := requests s @ [(Insecure hook, req)]\<rparr>
                       in case fst answer of
                            Inl e \<Rightarrow> (Some e, s1)
                          | Inr rsp \<Rightarrow>
                              if StatusCode rsp < 200 \<or> StatusCode rsp \<ge> 400
                              then (Some (Errorf (''invalid status code calling hook: '' @
                                       itoa (StatusCode rsp) @ '': '' @ Response_Body rsp)), s1)
                              else (None, s1))))
      in (fst r, deferred (fst r) (snd r)))"
proof -
  have "(if Method (hook\<lparr>Method := ToUpper (Method hook)\<rparr>) = ''''
         then hook\<lparr>Method := ToUpper (Method hook)\<rparr>\<lparr>Method := ''POST''\<rparr>
         else hook\<lparr>Method := ToUpper (Method hook)\<rparr>) = normalizeMethod hook"
    by (simp add: normalizeMethod_def)
  then show ?thesis
    unfolding doHook_def Let_def by simp
qed

lemma doHook_body_error:
  assumes "webhookBody env (normalizeMethod hook) evt = (Inl e, hook')"
  shows "doHook env hook evt s = (Some e, deferred (Some e) s)"
  unfolding doHook_start using assms by simp

lemma doHook_request_error:
  assumes "webhookBody env (normalizeMethod hook) evt = (Inr body, hook')"
      and "NewRequest_check env (Method hook') (URL hook') = Some e"
  shows "doHook env hook evt s = (Some e, deferred (Some e) s)"
  unfolding doHook_start using assms by (simp add: NewRequest_def)

lemma doHook_request_sent:
  assumes "webhookBody env (normalizeMethod hook) evt = (Inr body, hook')"
      and "NewRequest_check env (Method hook') (URL hook') = None"
      and "req = \<lparr>Request_Method = Method hook', Request_URL = URL hook', Request_Body = body,
                  Request_Header = addUserAgent (Headers hook')\<rparr>"
  shows "doHook env hook evt s =
           (classify (fst (Do env (requests s) (Insecure hook') req)),
            deferred (classify (fst (Do env (requests s) (Insecure hook') req)))
              (s\<lparr>webhooksLatency := webhooksLatency s @ [snd (Do env (requests s) (Insecure hook') req)],
                 requests := requests s @ [(Insecure hook', req)]\<rparr>))"
proof (cases "Header_Get (Headers hook') ''User-Agent'' = []")
  case True
  then show ?thesis
    unfolding doHook_start assms(3) using assms(1,2)
    by (simp add: NewRequest_def classify_def addUserAgent_def UserAgent_def Let_def
        split: sum.splits)
next
  case False
  then show ?thesis
    unfolding doHook_start assms(3) using assms(1,2)
    by (simp add: NewRequest_def classify_def addUserAgent_def UserAgent_def Let_def
        split: sum.splits)
qed

lemmas fixture_defs =
  env0_def evt0_def evt1_def hookA_def hookB_def hookC_def hookD_def reqA_def reqB_def reqD_def
  world0_def
  validMethod_def isTokenByte_def

lemmas engine_defs =
  doHook_def webhookBody_def NewRequest_def deferred_def UserAgent_def Header_Get_def
  Header_Set_def defaultUserAgent_def ToUpper_def toUpperByte_def itoa_def digits.simps Let_def

lemma doHook_hookA:
  "doHook env0 hookA evt0 world0 =
     (Some (Errorf ''invalid status code calling hook: 503: busy''),
      world0\<lparr>webhooksTotal := 1, webhooksError := 1, webhooksLatency := [7],
             requests := [(False, reqA)]\<rparr>)"
  by (simp add: fixture_defs engine_defs)

lemma doHook_hookB:
  "doHook env0 hookB evt0 s =
     (None,
      s\<lparr>webhooksTotal := webhooksTotal s + 1,
        webhooksLatency := webhooksLatency s @ [7],
        requests := requests s @ [(True, reqB)]\<rparr>)"
  by (simp add: fixture_defs engine_defs)

lemma doHook_hookC:
  "doHook env0 hookC evt0 world0 =
     (Some (External ''net/http: invalid method''),
      world0\<lparr>webhooksTotal := 1, webhooksError := 1\<rparr>)"
  by (simp add: fixture_defs engine_defs)

lemma doHook_cases:
  obtains
    (body_error) e hook' where
      "webhookBody env (normalizeMethod hook) evt = (Inl e, hook')"
      "doHook env hook evt s = (Some e, deferred (Some e) s)"
  | (request_error) body hook' e where
      "webhookBody env (normalizeMethod hook) evt = (Inr body, hook')"
      "NewRequest_check env (Method hook') (URL hook') = Some e"
      "doHook env hook evt s = (Some e, deferred (Some e) s)"
  | (sent) body hook' req where
      "webhookBody env (normalizeMethod hook) evt = (Inr body, hook')"
      "NewRequest_check env (Method hook') (URL hook') = None"
      "req = \<lparr>Request_Method = Method hook', Request_URL = URL hook', Request_Body = body,
              Request_Header = addUserAgent (Headers hook')\<rparr>"
      "doHook env hook evt s =
         (classify (fst (Do env (requests s) (Insecure hook') req)),
          deferred (classify (fst (Do env (requests s) (Insecure hook') req)))
            (s\<lparr>webhooksLatency := webhooksLatency s @ [snd (Do env (requests s) (Insecure hook') req)],
               requests := requests s @ [(Insecure hook', req)]\<rparr>))"
proof -
  obtain r hook' where wb: "webhookBody env (normalizeMethod hook) evt = (r, hook')"
    by (cases "webhookBody env (normalizeMethod hook) evt")
  show thesis
  proof (cases r)
    case (Inl e)
    with wb doHook_body_error [of env hook evt e hook' s] body_error show thesis by simp
  next
    case (Inr body)
    note b = this
    show thesis
    proof (cases "NewRequest_check env (Method hook') (URL hook')")
      case (Some e)
      with wb b doHook_request_error [of env hook evt body hook' e s] request_error
      show thesis by simp
    next
      case None
      with wb b doHook_request_sent [of env hook evt body hook' _ s] sent
      show thesis by simp
    qed
  qed
qed

lemma doHook_sent_request:
  assumes "requests (snd (doHook env hook evt s)) = requests s @ [(i, req)]"
  obtains body hook' where
    "webhookBody env (normalizeMethod hook) evt = (Inr body, hook')"
    "NewRequest_check env (Method hook') (URL hook') = None"
    "i = Insecure hook'"
    "req = \<lparr>Request_Method = Method hook', Request_URL = URL hook', Request_Body = body,
            Request_Header = addUserAgent (Headers hook')\<rparr>"
    "doHook env hook evt s =
       (classify (fst (Do env (requests s) i req)),
        deferred (classify (fst (Do env (requests s) i req)))
          (s\<lparr>webhooksLatency := webhooksLatency s @ [snd (Do env (requests s) i req)],
             requests := requests s @ [(i, req)]\<rparr>))"
proof (cases rule: doHook_cases [of env hook evt s])
  case (body_error e hook')
  with assms show thesis by (simp add: deferred_frame)
next
  case (request_error body hook' e)
  with assms show thesis by (simp add: deferred_frame)
next
  case (sent body hook' req')
  from assms sent(4) have "i = Insecure hook'" and "req = req'"
    by (simp_all add: deferred_frame)
  with sent that show thesis by simp
qed

lemma doHook_hookD:
  "doHook env0 hookD evt0 world0 =
     (None, world0\<lparr>webhooksTotal := 1, webhooksLatency := [7], requests := [(False, reqD)]\<rparr>)"
  by (simp add: fixture_defs engine_defs)

lemma normalizeMethod_frame:
  "Body (normalizeMethod hook) = Body hook"
  "Headers (normalizeMethod hook) = Headers hook"
  "URL (normalizeMethod hook) = URL hook"
  "Insecure (normalizeMethod hook) = Insecure hook"
  "Method (normalizeMethod hook) =
     (if ToUpper (Method hook) = '''' then ''POST'' else ToUpper (Method hook))"
  by (simp_all add: normalizeMethod_def)

lemma doHook_normalizeMethod:
  assumes "normalizeMethod h1 = normalizeMethod h2"
  shows "doHook env h1 evt s = doHook env h2 evt s"
  unfolding doHook_start using assms by simp

lemma addUserAgent_other:
  "k \<noteq> ''User-Agent'' \<Longrightarrow> addUserAgent h k = h k"
  by (simp add: addUserAgent_def Header_Set_def)

section \<open>The delivery engine\<close>

text \<open>
  C2. With a literal \<open>Body\<close> the body is that string, whatever the method. Without one,
  for POST, PUT and PATCH the body is the JSON serialisation of the event and the
  \<open>Content-Type\<close> header is \<open>application/json\<close>; for any other method there is no body.
  The request \<open>doHook\<close> sends carries the body so selected for the normalised method.
\<close>

theorem webhookBody_selection:
  "(Body hook \<noteq> '''' \<longrightarrow> webhookBody env hook evt = (Inr (Some (Body hook)), hook)) \<and>
   (Body hook = '''' \<and> Method hook \<in> {''POST'', ''PUT'', ''PATCH''} \<longrightarrow>
      fst (webhookBody env hook evt) =
        (case Marshal env evt of Inl e \<Rightarrow> Inl e | Inr data \<Rightarrow> Inr (Some data)) \<and>
      Header_Get (Headers (snd (webhookBody env hook evt))) ''Content-Type'' = ''application/json'') \<and>
   (Body hook = '''' \<and> Method hook \<notin> {''POST'', ''PUT'', ''PATCH''} \<longrightarrow>
      webhookBody env hook evt = (Inr None, hook)) \<and>
   (\<forall>i req. requests (snd (doHook env hook evt s)) = requests s @ [(i, req)] \<longrightarrow>
      Request_Method req = (if ToUpper (Method hook) = '''' then ''POST'' else ToUpper (Method hook)) \<and>
      fst (webhookBody env (hook\<lparr>Method := Request_Method req\<rparr>) evt) = Inr (Request_Body req) \<and>
      (Body hook = '''' \<and> Request_Method req \<in> {''POST'', ''PUT'', ''PATCH''} \<longrightarrow>
         Header_Get (Request_Header req) ''Content-Type'' = ''application/json''))"
proof -
  have a: "Body hook \<noteq> '''' \<longrightarrow> webhookBody env hook evt = (Inr (Some (Body hook)), hook)"
    by (simp add: webhookBody_def)
  have b: "Body hook = '''' \<and> Method hook \<in> {''POST'', ''PUT'', ''PATCH''} \<longrightarrow>
      fst (webhookBody env hook evt) =
        (case Marshal env evt of Inl e \<Rightarrow> Inl e | Inr data \<Rightarrow> Inr (Some data)) \<and>
      Header_Get (Headers (snd (webhookBody env hook evt))) ''Content-Type'' = ''application/json''"
    by (auto simp: webhookBody_def Let_def Header_Get_def Header_Set_def split: sum.splits)
  have c: "Body hook = '''' \<and> Method hook \<notin> {''POST'', ''PUT'', ''PATCH''} \<longrightarrow>
      webhookBody env hook evt = (Inr None, hook)"
    by (simp add: webhookBody_def)
  have d: "Request_Method req = (if ToUpper (Method hook) = '''' then ''POST'' else ToUpper (Method hook)) \<and>
      fst (webhookBody env (hook\<lparr>Method := Request_Method req\<rparr>) evt) = Inr (Request_Body req) \<and>
      (Body hook = '''' \<and> Request_Method req \<in> {''POST'', ''PUT'', ''PATCH''} \<longrightarrow>
         Header_Get (Request_Header req) ''Content-Type'' = ''application/json'')"
    if sent: "requests (snd (doHook env hook evt s)) = requests s @ [(i, req)]" for i req
  proof -
    from sent obtain body hook' where
      wb: "webhookBody env (normalizeMethod hook) evt = (Inr body, hook')" and
      rq: "req = \<lparr>Request_Method = Method hook', Request_URL = URL hook', Request_Body = body,
                  Request_Header = addUserAgent (Headers hook')\<rparr>"
      by (rule doHook_sent_request)
    from wb have m: "Method hook' = Method (normalizeMethod hook)"
      using webhookBody_frame(1) [of env "normalizeMethod hook" evt] by simp
    have "snd (webhookBody env (normalizeMethod hook) evt) = hook'"
      unfolding wb by simp
    then have h: "Headers hook' =
        (if Body hook = '''' \<and> Method (normalizeMethod hook) \<in> {''POST'', ''PUT'', ''PATCH''}
         then Header_Set ''Content-Type'' ''application/json'' (Headers hook)
         else Headers hook)"
      using webhookBody_Headers [of env "normalizeMethod hook" evt]
      unfolding normalizeMethod_frame(1,2) by simp
    have c1: "Request_Method req =
        (if ToUpper (Method hook) = '''' then ''POST'' else ToUpper (Method hook))"
      using rq m by (simp add: normalizeMethod_frame)
    have "hook\<lparr>Method := Request_Method req\<rparr> = normalizeMethod hook"
      unfolding c1 by (simp add: normalizeMethod_def)
    moreover have "Request_Body req = body"
      using rq by simp
    ultimately have c2:
      "fst (webhookBody env (hook\<lparr>Method := Request_Method req\<rparr>) evt) = Inr (Request_Body req)"
      using wb by simp
    have rm: "Request_Method req = Method (normalizeMethod hook)"
      using rq m by simp
    have rh: "Request_Header req = addUserAgent (Headers hook')"
      using rq by simp
    have c3: "Body hook = '''' \<and> Request_Method req \<in> {''POST'', ''PUT'', ''PATCH''} \<longrightarrow>
         Header_Get (Request_Header req) ''Content-Type'' = ''application/json''"
      unfolding rm rh h
      by (simp add: Header_Get_def addUserAgent_other Header_Set_def)
    from c1 c2 c3 show ?thesis by blast
  qed
  from a b c d show ?thesis by blast
qed

theorem webhookBody_selection_witness:
  "webhookBody env0 hookB evt0 = (Inr (Some ''ping''), hookB) \<and>
   fst (webhookBody env0 (hookA\<lparr>Method := ''POST''\<rparr>) evt0) = Inr (Some ''{}'') \<and>
   Header_Get (Headers (snd (webhookBody env0 (hookA\<lparr>Method := ''POST''\<rparr>) evt0))) ''Content-Type''
     = ''application/json'' \<and>
   webhookBody env0 (hookB\<lparr>Body := ''''\<rparr>) evt0 = (Inr None, hookB\<lparr>Body := ''''\<rparr>) \<and>
   requests (snd (doHook env0 hookA evt0 world0)) = requests world0 @ [(False, reqA)] \<and>
   Request_Method reqA = ''POST'' \<and>
   Request_Body reqA = Some ''{}'' \<and>
   Header_Get (Request_Header reqA) ''Content-Type'' = ''application/json''"
proof -
  have a: "requests (snd (doHook env0 hookA evt0 world0)) = requests world0 @ [(False, reqA)]"
    unfolding doHook_hookA by (simp add: world0_def)
  have b: "Request_Method reqA = ''POST''" "Request_Body reqA = Some ''{}''"
    by (simp_all add: reqA_def)
  have c: "Body hookB \<noteq> ''''" "Body (hookA\<lparr>Method := ''POST''\<rparr>) = ''''"
    "Method (hookA\<lparr>Method := ''POST''\<rparr>) \<in> {''POST'', ''PUT'', ''PATCH''}"
    "Body (hookB\<lparr>Body := ''''\<rparr>) = ''''"
    "Method (hookB\<lparr>Body := ''''\<rparr>) \<notin> {''POST'', ''PUT'', ''PATCH''}"
    "Body hookA = ''''"
    by (simp_all add: hookA_def hookB_def)
  have d: "Marshal env0 evt0 = Inr ''{}''"
    by (simp add: env0_def)
  note t1 = webhookBody_selection [of hookB env0 evt0 world0, THEN conjunct1, rule_format, OF c(1)]
  note t2 = webhookBody_selection [of "hookA\<lparr>Method := ''POST''\<rparr>" env0 evt0 world0,
      THEN conjunct2, THEN conjunct1, rule_format, OF conjI, OF c(2) c(3)]
  note t3 = webhookBody_selection [of "hookB\<lparr>Body := ''''\<rparr>" env0 evt0 world0,
      THEN conjunct2, THEN conjunct2, THEN conjunct1, rule_format, OF conjI, OF c(4) c(5)]
  note t4 = webhookBody_selection [of hookA env0 evt0 world0,
      THEN conjunct2, THEN conjunct2, THEN conjunct2, rule_format, OF a]
  have e: "Body hookB = ''ping''"
    by (simp add: hookB_def)
  from t4 c(6) b have f: "Header_Get (Request_Header reqA) ''Content-Type'' = ''application/json''"
    by simp
  from t1 t2 t3 a b d e f show ?thesis
    by simp
qed

text \<open>
  C5, as the code has it. Every call of \<open>doHook\<close> adds one to the total counter, and one
  to the error counter exactly when it returns an error. A latency is observed exactly
  when the request was built and handed to the client, whatever the client answers; a
  call that fails before that (the body cannot be serialised, the request cannot be
  built) observes none.
\<close>

theorem doHook_metrics:
  "webhooksTotal (snd (doHook env hook evt s)) = webhooksTotal s + 1 \<and>
   webhooksError (snd (doHook env hook evt s)) =
     webhooksError s + (if fst (doHook env hook evt s) = None then 0 else 1) \<and>
   ((\<exists>i req. requests (snd (doHook env hook evt s)) = requests s @ [(i, req)] \<and>
              webhooksLatency (snd (doHook env hook evt s)) =
                webhooksLatency s @ [snd (Do env (requests s) i req)]) \<or>
    (\<exists>e. fst (doHook env hook evt s) = Some e \<and>
         requests (snd (doHook env hook evt s)) = requests s \<and>
         webhooksLatency (snd (doHook env hook evt s)) = webhooksLatency s \<and>
         (fst (webhookBody env (normalizeMethod hook) evt) = Inl e \<or>
          NewRequest_check env (Method (normalizeMethod hook)) (URL hook) = Some e)))"
proof (cases rule: doHook_cases [of env hook evt s])
  case (body_error e hook')
  then show ?thesis by (simp add: deferred_frame)
next
  case (request_error body hook' e)
  from request_error(1) have "Method hook' = Method (normalizeMethod hook)" "URL hook' = URL hook"
    using webhookBody_frame(1,2) [of env "normalizeMethod hook" evt]
    by (simp_all add: normalizeMethod_def)
  with request_error show ?thesis by (simp add: deferred_frame)
next
  case (sent body hook' req)
  then show ?thesis by (simp add: deferred_frame)
qed

theorem doHook_metrics_witness:
  "webhooksTotal (snd (doHook env0 hookA evt0 world0)) = 1 \<and>
   webhooksError (snd (doHook env0 hookA evt0 world0)) = 1 \<and>
   webhooksLatency (snd (doHook env0 hookA evt0 world0)) = [7] \<and>
   webhooksTotal (snd (doHook env0 hookC evt0 world0)) = 1 \<and>
   webhooksError (snd (doHook env0 hookC evt0 world0)) = 1 \<and>
   webhooksLatency (snd (doHook env0 hookC evt0 world0)) = []"
  using doHook_metrics [of env0 hookA evt0 world0] doHook_metrics [of env0 hookC evt0 world0]
  unfolding doHook_hookA doHook_hookC
  by (simp add: world0_def)

theorem doHook_latency_counterexample:
  "fst (doHook env0 hookC evt0 world0) = Some (External ''net/http: invalid method'') \<and>
   webhooksTotal (snd (doHook env0 hookC evt0 world0)) = webhooksTotal world0 + 1 \<and>
   webhooksLatency (snd (doHook env0 hookC evt0 world0)) = webhooksLatency world0"
  unfolding doHook_hookC
  by (simp add: world0_def)

text \<open>
  C3. When the client returns a response and no transport error, \<open>doHook\<close> returns nil
  exactly when the status code is at least 200 and below 400; otherwise it returns an
  error whose message holds the status code and the response body.
\<close>

theorem doHook_status_classification:
  assumes "requests (snd (doHook env hook evt s)) = requests s @ [(i, req)]"
      and "fst (Do env (requests s) i req) = Inr rsp"
  shows "(fst (doHook env hook evt s) = None) = (200 \<le> StatusCode rsp \<and> StatusCode rsp < 400) \<and>
         (StatusCode rsp \<in> {200, 201, 399} \<longrightarrow> fst (doHook env hook evt s) = None) \<and>
         (StatusCode rsp \<in> {199, 400, 500} \<longrightarrow> fst (doHook env hook evt s) \<noteq> None) \<and>
         (\<not> (200 \<le> StatusCode rsp \<and> StatusCode rsp < 400) \<longrightarrow>
            (\<exists>e p q. fst (doHook env hook evt s) = Some e \<and>
               Error_message e = p @ itoa (StatusCode rsp) @ q @ Response_Body rsp))"
proof -
  from assms(1) obtain body hook' where
    "doHook env hook evt s =
       (classify (fst (Do env (requests s) i req)),
        deferred (classify (fst (Do env (requests s) i req)))
          (s\<lparr>webhooksLatency := webhooksLatency s @ [snd (Do env (requests s) i req)],
             requests := requests s @ [(i, req)]\<rparr>))"
    by (rule doHook_sent_request)
  with assms(2) have r: "fst (doHook env hook evt s) =
      (if StatusCode rsp < 200 \<or> StatusCode rsp \<ge> 400
       then Some (Errorf (''invalid status code calling hook: '' @
                    itoa (StatusCode rsp) @ '': '' @ Response_Body rsp))
       else None)"
    by (simp add: classify_def)
  have m: "\<exists>p q. ''invalid status code calling hook: '' @ itoa (StatusCode rsp) @ '': '' @ Response_Body rsp
              = p @ itoa (StatusCode rsp) @ q @ Response_Body rsp"
    by blast
  from r m show ?thesis by auto
qed

theorem doHook_status_classification_witness:
  "requests (snd (doHook env0 hookA evt0 world0)) = requests world0 @ [(False, reqA)] \<and>
   fst (Do env0 (requests world0) False reqA) = Inr \<lparr>StatusCode = 503, Response_Body = ''busy''\<rparr> \<and>
   (\<exists>e p q. fst (doHook env0 hookA evt0 world0) = Some e \<and>
      Error_message e = p @ ''503'' @ q @ ''busy'')"
proof -
  have a: "requests (snd (doHook env0 hookA evt0 world0)) = requests world0 @ [(False, reqA)]"
    unfolding doHook_hookA by (simp add: world0_def)
  have b: "fst (Do env0 (requests world0) False reqA) = Inr \<lparr>StatusCode = 503, Response_Body = ''busy''\<rparr>"
    by (simp add: env0_def reqA_def)
  have c: "itoa 503 = ''503''"
    by (simp add: itoa_def digits.simps)
  from doHook_status_classification [OF a b] a b c show ?thesis by simp
qed

end
